theory Spec2Isabelle
  imports Complex_Main
begin

section \<open>Numbers: numpy's float64\<close>

text \<open>
  Every component of a Vector is a numpy float64. A float64 is modelled by what it
  denotes: a finite real, one of the two infinities, or NaN. The operations follow
  IEEE 754 as numpy applies it: an operation on arrays or on numpy scalars never raises
  (division by zero and invalid operations give inf or nan, with a warning only); an
  exact result of magnitude \<open>2^1024\<close> or more overflows to an infinity; an exact
  result of magnitude \<open>2^-1075\<close> or less underflows to zero.

  Two things are left out: the rounding of a result inside the finite range (such a
  result is kept as the exact real) and the sign of zero. The statements below are
  about which results are numbers, infinities or NaN and about what is raised; the one
  concrete subtraction they evaluate, \<open>1 - 0\<close>, is exact in float64 as well.
\<close>

datatype float64 = Fin real | PInf | NInf | NaN

definition overflow_bound :: real where
  "overflow_bound = 2 ^ 1024"

definition underflow_bound :: real where
  "underflow_bound = 1 / 2 ^ 1075"

definition rnd :: "real \<Rightarrow> float64" where
  "rnd r =
     (if overflow_bound \<le> r then PInf
      else if r \<le> - overflow_bound then NInf
      else if \<bar>r\<bar> \<le> underflow_bound then Fin 0
      else Fin r)"

fun f64_neg :: "float64 \<Rightarrow> float64" where
  "f64_neg (Fin a) = Fin (- a)"
| "f64_neg PInf = NInf"
| "f64_neg NInf = PInf"
| "f64_neg NaN = NaN"

fun f64_add :: "float64 \<Rightarrow> float64 \<Rightarrow> float64" where
  "f64_add NaN _ = NaN"
| "f64_add _ NaN = NaN"
| "f64_add PInf NInf = NaN"
| "f64_add NInf PInf = NaN"
| "f64_add PInf _ = PInf"
| "f64_add _ PInf = PInf"
| "f64_add NInf _ = NInf"
| "f64_add _ NInf = NInf"
| "f64_add (Fin a) (Fin b) = rnd (a + b)"

definition f64_sub :: "float64 \<Rightarrow> float64 \<Rightarrow> float64" where
  "f64_sub a b = f64_add a (f64_neg b)"

text \<open>The infinity of the sign of a finite non-zero factor.\<close>

definition inf_of_sign :: "real \<Rightarrow> float64" where
  "inf_of_sign s = (if 0 < s then PInf else NInf)"

fun f64_mul :: "float64 \<Rightarrow> float64 \<Rightarrow> float64" where
  "f64_mul NaN _ = NaN"
| "f64_mul _ NaN = NaN"
| "f64_mul (Fin a) (Fin b) = rnd (a * b)"
| "f64_mul (Fin a) PInf = (if a = 0 then NaN else inf_of_sign a)"
| "f64_mul (Fin a) NInf = (if a = 0 then NaN else inf_of_sign (- a))"
| "f64_mul PInf (Fin b) = (if b = 0 then NaN else inf_of_sign b)"
| "f64_mul NInf (Fin b) = (if b = 0 then NaN else inf_of_sign (- b))"
| "f64_mul PInf PInf = PInf"
| "f64_mul NInf NInf = PInf"
| "f64_mul PInf NInf = NInf"
| "f64_mul NInf PInf = NInf"

text \<open>
  Division of numpy values. A finite value over zero is an infinity of the sign of the
  dividend, zero over zero is NaN; nothing is raised.
\<close>

fun f64_div :: "float64 \<Rightarrow> float64 \<Rightarrow> float64" where
  "f64_div NaN _ = NaN"
| "f64_div _ NaN = NaN"
| "f64_div (Fin a) (Fin b) =
     (if b = 0 then (if a = 0 then NaN else inf_of_sign a) else rnd (a / b))"
| "f64_div (Fin a) PInf = Fin 0"
| "f64_div (Fin a) NInf = Fin 0"
| "f64_div PInf (Fin b) = (if 0 \<le> b then PInf else NInf)"
| "f64_div NInf (Fin b) = (if 0 \<le> b then NInf else PInf)"
| "f64_div PInf PInf = NaN"
| "f64_div PInf NInf = NaN"
| "f64_div NInf PInf = NaN"
| "f64_div NInf NInf = NaN"

fun f64_sqrt :: "float64 \<Rightarrow> float64" where
  "f64_sqrt (Fin a) = (if a < 0 then NaN else Fin (sqrt a))"
| "f64_sqrt PInf = PInf"
| "f64_sqrt NInf = NaN"
| "f64_sqrt NaN = NaN"

fun f64_arccos :: "float64 \<Rightarrow> float64" where
  "f64_arccos (Fin a) = (if - 1 \<le> a \<and> a \<le> 1 then Fin (arccos a) else NaN)"
| "f64_arccos PInf = NaN"
| "f64_arccos NInf = NaN"
| "f64_arccos NaN = NaN"

text \<open>Comparisons: every ordered comparison with NaN is false, \<open>!=\<close> with NaN is true.\<close>

fun f64_lt :: "float64 \<Rightarrow> float64 \<Rightarrow> bool" where
  "f64_lt NaN _ = False"
| "f64_lt _ NaN = False"
| "f64_lt (Fin a) (Fin b) = (a < b)"
| "f64_lt (Fin a) PInf = True"
| "f64_lt (Fin a) NInf = False"
| "f64_lt PInf _ = False"
| "f64_lt NInf (Fin b) = True"
| "f64_lt NInf PInf = True"
| "f64_lt NInf NInf = False"

definition f64_gt :: "float64 \<Rightarrow> float64 \<Rightarrow> bool" where
  "f64_gt a b = f64_lt b a"

definition f64_ne :: "float64 \<Rightarrow> float64 \<Rightarrow> bool" where
  "f64_ne a b = (a = NaN \<or> b = NaN \<or> a \<noteq> b)"

section \<open>Python values\<close>

text \<open>
  A Vector object: the three components of its \<open>_data\<close> array and its
  \<open>_isPosition\<close> flag (the integer 1 or 0).
\<close>

type_synonym vec3 = "float64 \<times> float64 \<times> float64"

record vector =
  data :: vec3
  isPosition :: int

text \<open>
  The Python objects that reach the code: a number, a Vector, the bound method
  \<open>v.normalized\<close> of a Vector \<open>v\<close> (what the attribute access \<open>v.normalized\<close>
  evaluates to, since \<open>normalized\<close> is a plain method of the class), and None.
\<close>

datatype pyobj = PyNum float64 | PyVec vector | PyMethod vector | PyNone

text \<open>
  A constructor argument or an operand is such an object or a sequence (tuple, list or
  array). The constructor hands a sequence to \<open>np.array(..., dtype=np.float64)\<close>, so
  an element of a sequence is modelled by what that conversion makes of it: \<open>Elem x\<close>
  is an element numpy converts to the float64 \<open>x\<close> (a number is converted to
  itself), \<open>BadElem\<close> is an element numpy cannot convert, the str \<open>'a'\<close> for
  one, at which \<open>np.array\<close> raises its own ValueError or TypeError.
\<close>

datatype elem = Elem float64 | BadElem

datatype pyval = Obj pyobj | PySeq "elem list"

text \<open>
  What is raised: the class's own \<open>Vector.Error\<close>, the builtin TypeError,
  AttributeError and NameError, the ValueError or TypeError that \<open>np.array\<close>
  raises at an element it cannot convert (\<open>NumpyError\<close>), and the plain Exception
  of the constructor of Line.
\<close>

datatype error =
    VectorError
  | TypeError
  | AttributeError
  | NameError string
  | NumpyError
  | LineException

definition bind_err :: "error + 'a \<Rightarrow> ('a \<Rightarrow> error + 'b) \<Rightarrow> error + 'b" where
  "bind_err r f = (case r of Inl e \<Rightarrow> Inl e | Inr x \<Rightarrow> f x)"

text \<open>The truth value of an object, as \<open>if obj:\<close> reads it.\<close>

fun truthy :: "pyobj \<Rightarrow> bool" where
  "truthy (PyNum x) = f64_ne x (Fin 0)"
| "truthy (PyVec v) = True"
| "truthy (PyMethod v) = True"
| "truthy PyNone = False"

subsection \<open>The helpers of math3d.utils\<close>

text \<open>
  Modelled from the spec: the module math3d.utils (isNumType, isNumTypes, isSequence,
  isThreeSequence and the tolerance eps) is not among the sources. The spec speaks of
  scalars and of "any 3-element or 2-element ordered sequence of numbers"; the helpers
  are read by their names: a number, a tuple of numbers, a sequence, a sequence of
  three elements. The tolerance is a parameter of every function that reads it.
\<close>

fun isNumType :: "pyval \<Rightarrow> bool" where
  "isNumType (Obj (PyNum x)) = True"
| "isNumType _ = False"

definition isNumTypes :: "pyval list \<Rightarrow> bool" where
  "isNumTypes args = list_all isNumType args"

fun isSequence :: "pyval \<Rightarrow> bool" where
  "isSequence (PySeq xs) = True"
| "isSequence _ = False"

fun len :: "pyval \<Rightarrow> nat" where
  "len (PySeq xs) = length xs"
| "len _ = 0"

definition isThreeSequence :: "pyval \<Rightarrow> bool" where
  "isThreeSequence a = (isSequence a \<and> len a = 3)"

fun isVectorType :: "pyval \<Rightarrow> bool" where
  "isVectorType (Obj (PyVec v)) = True"
| "isVectorType _ = False"

section \<open>Vector\<close>

text \<open>The number held by a numeric argument, and the elements of a sequence.\<close>

fun num_of :: "pyval \<Rightarrow> float64" where
  "num_of (Obj (PyNum x)) = x"
| "num_of _ = NaN"

fun elems :: "pyval \<Rightarrow> elem list" where
  "elems (PySeq xs) = xs"
| "elems _ = []"

text \<open>
  \<open>np.array(seq, dtype=np.float64)\<close>: every element is converted, and the first one
  that cannot be raises.
\<close>

fun np_float :: "elem \<Rightarrow> error + float64" where
  "np_float (Elem x) = Inr x"
| "np_float BadElem = Inl NumpyError"

fun np_array :: "elem list \<Rightarrow> error + float64 list" where
  "np_array [] = Inr []"
| "np_array (e # es) =
     bind_err (np_float e) (\<lambda>x. bind_err (np_array es) (\<lambda>xs. Inr (x # xs)))"

text \<open>A tuple of numbers, such as \<open>(0, 1, 1)\<close>.\<close>

definition nums :: "float64 list \<Rightarrow> pyval" where
  "nums xs = PySeq (map Elem xs)"

fun vec_of :: "pyval \<Rightarrow> vector" where
  "vec_of (Obj (PyVec v)) = v"
| "vec_of _ = \<lparr>data = (NaN, NaN, NaN), isPosition = 0\<rparr>"

text \<open>
  \<open>Vector.__init__(self, *args, **kwargs)\<close>. The first part chooses \<open>_data\<close> from
  the positional arguments; each read of an argument stands under the test that
  guards it in the source.
\<close>

definition Vector_init_data :: "pyval list \<Rightarrow> error + vec3" where
  "Vector_init_data args =
     (if length args = 3 \<and> isNumTypes args then
        Inr (num_of (args ! 0), num_of (args ! 1), num_of (args ! 2))
      else if length args = 2 \<and> isNumTypes args then
        Inr (num_of (args ! 0), num_of (args ! 1), Fin 0)
      else if length args = 1 then
        (let arg = args ! 0 in
         if isThreeSequence arg then
           bind_err (np_array (elems arg)) (\<lambda>xs. Inr (xs ! 0, xs ! 1, xs ! 2))
         else if isSequence arg \<and> len arg = 2 then
           bind_err (np_array [elems arg ! 0, elems arg ! 1, Elem (Fin 0)])
             (\<lambda>xs. Inr (xs ! 0, xs ! 1, xs ! 2))
         else if isVectorType arg then
           Inr (data (vec_of arg))
         else Inl VectorError)
      else Inr (Fin 0, Fin 0, Fin 0))"

text \<open>The second part sets the flag: 1, unless the keyword 'position' is given and false.\<close>

definition Vector_init_isPosition :: "(string \<rightharpoonup> pyobj) \<Rightarrow> int" where
  "Vector_init_isPosition kwargs =
     (case kwargs ''position'' of
        None \<Rightarrow> 1
      | Some flag \<Rightarrow> (if truthy flag then 1 else 0))"

definition Vector_init :: "pyval list \<Rightarrow> (string \<rightharpoonup> pyobj) \<Rightarrow> error + vector" where
  "Vector_init args kwargs =
     bind_err (Vector_init_data args)
       (\<lambda>d. Inr \<lparr>data = d, isPosition = Vector_init_isPosition kwargs\<rparr>)"


text \<open>Arrays of three components, as numpy computes on them elementwise.\<close>

definition array :: "vec3 \<Rightarrow> pyval" where
  "array a = (case a of (x, y, z) \<Rightarrow> PySeq [Elem x, Elem y, Elem z])"

definition np_subtract :: "vec3 \<Rightarrow> vec3 \<Rightarrow> vec3" where
  "np_subtract a b =
     (case a of (a0, a1, a2) \<Rightarrow> case b of (b0, b1, b2) \<Rightarrow>
        (f64_sub a0 b0, f64_sub a1 b1, f64_sub a2 b2))"

definition np_add :: "vec3 \<Rightarrow> vec3 \<Rightarrow> vec3" where
  "np_add a b =
     (case a of (a0, a1, a2) \<Rightarrow> case b of (b0, b1, b2) \<Rightarrow>
        (f64_add a0 b0, f64_add a1 b1, f64_add a2 b2))"

definition np_negative :: "vec3 \<Rightarrow> vec3" where
  "np_negative a = (case a of (a0, a1, a2) \<Rightarrow> (f64_neg a0, f64_neg a1, f64_neg a2))"

definition np_times :: "vec3 \<Rightarrow> float64 \<Rightarrow> vec3" where
  "np_times a s = (case a of (a0, a1, a2) \<Rightarrow> (f64_mul a0 s, f64_mul a1 s, f64_mul a2 s))"

definition np_divide :: "vec3 \<Rightarrow> float64 \<Rightarrow> vec3" where
  "np_divide a s = (case a of (a0, a1, a2) \<Rightarrow> (f64_div a0 s, f64_div a1 s, f64_div a2 s))"

definition np_dot :: "vec3 \<Rightarrow> vec3 \<Rightarrow> float64" where
  "np_dot a b =
     (case a of (a0, a1, a2) \<Rightarrow> case b of (b0, b1, b2) \<Rightarrow>
        f64_add (f64_add (f64_mul a0 b0) (f64_mul a1 b1)) (f64_mul a2 b2))"

definition np_cross :: "vec3 \<Rightarrow> vec3 \<Rightarrow> vec3" where
  "np_cross a b =
     (case a of (a0, a1, a2) \<Rightarrow> case b of (b0, b1, b2) \<Rightarrow>
        (f64_sub (f64_mul a1 b2) (f64_mul a2 b1),
         f64_sub (f64_mul a2 b0) (f64_mul a0 b2),
         f64_sub (f64_mul a0 b1) (f64_mul a1 b0)))"

text \<open>\<open>np.sum(a ** 2)\<close>.\<close>

definition np_sum_sq :: "vec3 \<Rightarrow> float64" where
  "np_sum_sq a =
     (case a of (a0, a1, a2) \<Rightarrow>
        f64_add (f64_add (f64_mul a0 a0) (f64_mul a1 a1)) (f64_mul a2 a2))"

subsection \<open>Copying\<close>

text \<open>\<open>__copy__\<close> is \<open>Vector(self)\<close>: the constructor, with no keyword.\<close>

definition Vector_dunder_copy :: "vector \<Rightarrow> error + vector" where
  "Vector_dunder_copy self = Vector_init [Obj (PyVec self)] Map.empty"

text \<open>
  \<open>copy(self, other=None)\<close>. Without an argument it returns \<open>Vector(self)\<close>; with
  another Vector it overwrites the receiver's components and returns None. The result
  is the receiver after the call and what the call returns.
\<close>

definition Vector_copy :: "vector \<Rightarrow> vector option \<Rightarrow> vector \<times> (error + pyobj)" where
  "Vector_copy self other =
     (case other of
        None \<Rightarrow> (self, bind_err (Vector_init [Obj (PyVec self)] Map.empty) (\<lambda>v. Inr (PyVec v)))
      | Some v \<Rightarrow> (self\<lparr>data := data v\<rparr>, Inr PyNone))"

definition Vector_isPos :: "vector \<Rightarrow> int" where
  "Vector_isPos self = isPosition self"

subsection \<open>Comparison\<close>

text \<open>
  The names bound in the module vector.py when a method runs: those of its two import
  statements, its assignments and its definitions. The body of \<open>__eq__\<close> reads
  \<open>utils._eps\<close>; a name that is neither here nor a builtin raises NameError when it
  is read.
\<close>

definition vector_module_names :: "string list" where
  "vector_module_names =
     [''__author__'', ''__copyright__'', ''__credits__'', ''__license__'',
      ''__maintainer__'', ''__email__'', ''__status__'',
      ''np'', ''isNumTypes'', ''isNumType'', ''isSequence'', ''isThreeSequence'', ''_eps'',
      ''isVector'', ''Vector'', ''_test'']"

definition read_global :: "string \<Rightarrow> error + unit" where
  "read_global name = (if name \<in> set vector_module_names then Inr () else Inl (NameError name))"

text \<open>
  \<open>__eq__\<close>: the left operand of \<open><\<close> is computed first, then \<open>utils._eps\<close> is
  read (\<open>tol\<close> is the value the attribute would have).
\<close>

definition Vector_eq :: "float64 \<Rightarrow> vector \<Rightarrow> pyval \<Rightarrow> error + bool" where
  "Vector_eq tol self other =
     (if isVectorType other then
        (let s = np_sum_sq (np_subtract (data self) (data (vec_of other)))
         in bind_err (read_global ''utils'') (\<lambda>_. Inr (f64_lt s tol)))
      else Inl VectorError)"

subsection \<open>Length, normalisation, angle\<close>

definition Vector_length2 :: "vector \<Rightarrow> float64" where
  "Vector_length2 self = np_dot (data self) (data self)"

definition Vector_length :: "vector \<Rightarrow> float64" where
  "Vector_length self = f64_sqrt (Vector_length2 self)"

text \<open>\<open>normalize\<close> works in place: the result is the receiver after the call.\<close>

definition Vector_normalize :: "vector \<Rightarrow> vector" where
  "Vector_normalize self =
     (let l = Vector_length self
      in if f64_ne l (Fin 1) then self\<lparr>data := np_divide (data self) l\<rparr> else self)"

definition Vector_normalized :: "vector \<Rightarrow> error + vector" where
  "Vector_normalized self =
     bind_err (Vector_init [Obj (PyVec self)] Map.empty) (\<lambda>nv. Inr (Vector_normalize nv))"

text \<open>
  \<open>angle(self, other)\<close>, for another Vector. The \<open>if\<close>/\<open>elif\<close> that
  reassigns \<open>costheta\<close> is \<open>clamp_costheta\<close>.
\<close>

definition clamp_costheta :: "float64 \<Rightarrow> float64" where
  "clamp_costheta costheta =
     (if f64_gt costheta (Fin 1) then Fin 1
      else if f64_lt costheta (Fin (- 1)) then Fin (- 1)
      else costheta)"

definition Vector_angle :: "vector \<Rightarrow> vector \<Rightarrow> float64" where
  "Vector_angle self other =
     (let costheta = f64_div (np_dot (data self) (data other))
                             (f64_mul (Vector_length self) (Vector_length other))
      in f64_arccos (clamp_costheta costheta))"

subsection \<open>Arithmetic\<close>

text \<open>
  Each operator tests \<open>type(other) == Vector\<close> (or \<open>isNumType(other)\<close>) first. A
  method that ends without \<open>return\<close> returns None. The branch of \<open>__sub__\<close> for
  a Vector operand is named on its own, for the callers that hold a Vector.
\<close>

definition Vector_sub_vec :: "vector \<Rightarrow> vector \<Rightarrow> error + vector" where
  "Vector_sub_vec self other =
     Vector_init [array (np_subtract (data self) (data other))] Map.empty"

definition Vector_sub :: "vector \<Rightarrow> pyval \<Rightarrow> error + pyobj" where
  "Vector_sub self other =
     (if isVectorType other then
        bind_err (Vector_sub_vec self (vec_of other)) (\<lambda>v. Inr (PyVec v))
      else Inr PyNone)"

text \<open>
  The in-place operators give the receiver after the call and the error raised, if
  any; what they return is the receiver itself.
\<close>

definition Vector_isub :: "vector \<Rightarrow> pyval \<Rightarrow> vector \<times> error option" where
  "Vector_isub self other =
     (if isVectorType other then
        (self\<lparr>data := np_subtract (data self) (data (vec_of other))\<rparr>, None)
      else (self, None))"

definition Vector_mul :: "vector \<Rightarrow> pyval \<Rightarrow> error + pyobj" where
  "Vector_mul self other =
     (if isVectorType other then
        Inr (PyNum (np_dot (data self) (data (vec_of other))))
      else if isNumType other then
        bind_err (Vector_init [array (np_times (data self) (num_of other))] Map.empty)
          (\<lambda>v. Inr (PyVec v))
      else Inr PyNone)"

definition Vector_rmul :: "vector \<Rightarrow> pyval \<Rightarrow> error + vector" where
  "Vector_rmul self other =
     (if isNumType other then
        Vector_init [array (np_times (data self) (num_of other))] Map.empty
      else Inl VectorError)"

definition Vector_add :: "vector \<Rightarrow> pyval \<Rightarrow> error + vector" where
  "Vector_add self other =
     (if isVectorType other then
        Vector_init [array (np_add (data self) (data (vec_of other)))] Map.empty
      else Inl VectorError)"

definition Vector_iadd :: "vector \<Rightarrow> pyval \<Rightarrow> vector \<times> error option" where
  "Vector_iadd self other =
     (if isVectorType other then
        (self\<lparr>data := np_add (data self) (data (vec_of other))\<rparr>, None)
      else (self, Some VectorError))"

definition Vector_neg :: "vector \<Rightarrow> error + vector" where
  "Vector_neg self = Vector_init [array (np_negative (data self))] Map.empty"

text \<open>\<open>cross(self, other)\<close>, for another Vector.\<close>

definition Vector_cross :: "vector \<Rightarrow> vector \<Rightarrow> error + vector" where
  "Vector_cross self other =
     Vector_init [array (np_cross (data self) (data other))] Map.empty"

section \<open>Line\<close>

text \<open>
  A Line object: \<open>_p\<close> and \<open>_d\<close> are Vectors; \<open>_ud\<close> holds whatever the
  constructor's last statement assigns.
\<close>

record line =
  line_p :: vector
  line_d :: vector
  line_ud :: pyobj

text \<open>
  The keyword arguments of \<open>Line.__init__\<close>: each of the six names it reads is given
  or not. 'point_direction' and 'pd_pair' hold an ordered pair, which the constructor
  iterates over; the others hold one constructor argument of Vector.
\<close>

record line_kwargs =
  kw_point_direction :: "(pyval \<times> pyval) option"
  kw_pd_pair :: "(pyval \<times> pyval) option"
  kw_point :: "pyval option"
  kw_direction :: "pyval option"
  kw_point0 :: "pyval option"
  kw_point1 :: "pyval option"

text \<open>
  The attribute access \<open>v.normalized\<close>. The class defines \<open>normalized\<close> with
  \<open>def\<close> and no decorator, so the access finds the function in the class and gives
  the method bound to \<open>v\<close>; it calls nothing.
\<close>

definition getattr_normalized :: "vector \<Rightarrow> pyobj" where
  "getattr_normalized v = PyMethod v"

text \<open>The last statement of the constructor: \<open>self._ud = self._d.normalized\<close>.\<close>

definition Line_init_finish :: "vector \<Rightarrow> vector \<Rightarrow> error + line" where
  "Line_init_finish p d = Inr \<lparr>line_p = p, line_d = d, line_ud = getattr_normalized d\<rparr>"

definition Line_init_pair :: "pyval \<times> pyval \<Rightarrow> error + line" where
  "Line_init_pair pd =
     (case pd of (e0, e1) \<Rightarrow>
        bind_err (Vector_init [e0] Map.empty) (\<lambda>p.
        bind_err (Vector_init [e1] Map.empty) (\<lambda>d.
        Line_init_finish p d)))"

definition Line_init :: "line_kwargs \<Rightarrow> error + line" where
  "Line_init kwargs =
     (case kw_point_direction kwargs of
        Some pd \<Rightarrow> Line_init_pair pd
      | None \<Rightarrow>
     (case kw_pd_pair kwargs of
        Some pd \<Rightarrow> Line_init_pair pd
      | None \<Rightarrow>
     (case (kw_point kwargs, kw_direction kwargs) of
        (Some point, Some direction) \<Rightarrow>
          bind_err (Vector_init [point] Map.empty) (\<lambda>p.
          bind_err (Vector_init [direction] Map.empty) (\<lambda>d.
          Line_init_finish p d))
      | _ \<Rightarrow>
     (case (kw_point0 kwargs, kw_point1 kwargs) of
        (Some point0, Some point1) \<Rightarrow>
          bind_err (Vector_init [point0] Map.empty) (\<lambda>p.
          bind_err (Vector_init [point1] Map.empty) (\<lambda>v1.
          bind_err (Vector_sub_vec v1 p) (\<lambda>d.
          Line_init_finish p d)))
      | _ \<Rightarrow> Inl LineException))))"

subsection \<open>The accessors\<close>

definition Line_point :: "line \<Rightarrow> error + vector" where
  "Line_point self = Vector_init [Obj (PyVec (line_p self))] Map.empty"

definition Line_direction :: "line \<Rightarrow> error + vector" where
  "Line_direction self = Vector_init [Obj (PyVec (line_d self))] Map.empty"

definition Line_unit_direction :: "line \<Rightarrow> error + vector" where
  "Line_unit_direction self = Vector_init [Obj (line_ud self)] Map.empty"

subsection \<open>Operators on the objects a Line holds\<close>

text \<open>
  The methods of Line apply \<open>*\<close>, \<open>-\<close>, \<open>/\<close> and \<open>.cross\<close> to \<open>_ud\<close> and to
  what results from it. Python looks the operator up in the type of the left operand,
  then, when that type has none and the types differ, the reflected operator in the
  type of the right operand; when neither applies it raises TypeError. Vector defines
  \<open>__mul__\<close>, \<open>__rmul__\<close>, \<open>__add__\<close>, \<open>__sub__\<close> and \<open>__truediv__\<close>, and no
  \<open>__rsub__\<close>, \<open>__radd__\<close> or \<open>__rtruediv__\<close>; a bound method and None define
  none of them.
\<close>

text \<open>\<open>s * b\<close> for a number \<open>s\<close>.\<close>

definition num_mul :: "float64 \<Rightarrow> pyobj \<Rightarrow> error + pyobj" where
  "num_mul s b =
     (case b of
        PyNum t \<Rightarrow> Inr (PyNum (f64_mul s t))
      | PyVec v \<Rightarrow> bind_err (Vector_rmul v (Obj (PyNum s))) (\<lambda>r. Inr (PyVec r))
      | PyMethod m \<Rightarrow> Inl TypeError
      | PyNone \<Rightarrow> Inl TypeError)"

text \<open>\<open>a * b\<close>.\<close>

definition py_mul :: "pyobj \<Rightarrow> pyobj \<Rightarrow> error + pyobj" where
  "py_mul a b =
     (case a of
        PyVec v \<Rightarrow> Vector_mul v (Obj b)
      | PyNum s \<Rightarrow> num_mul s b
      | _ \<Rightarrow>
        (case b of
           PyVec w \<Rightarrow> bind_err (Vector_rmul w (Obj a)) (\<lambda>r. Inr (PyVec r))
         | _ \<Rightarrow> Inl TypeError))"

text \<open>\<open>s - b\<close> and \<open>s / b\<close> for a number \<open>s\<close>: a number when \<open>b\<close> is one.\<close>

definition num_sub :: "float64 \<Rightarrow> pyobj \<Rightarrow> error + float64" where
  "num_sub s b = (case b of PyNum t \<Rightarrow> Inr (f64_sub s t) | _ \<Rightarrow> Inl TypeError)"

definition num_truediv :: "float64 \<Rightarrow> pyobj \<Rightarrow> error + float64" where
  "num_truediv s b = (case b of PyNum t \<Rightarrow> Inr (f64_div s t) | _ \<Rightarrow> Inl TypeError)"

text \<open>
  \<open>a.cross(b)\<close>: only a Vector has the method, and the method reads \<open>b._data\<close>.
\<close>

definition py_cross :: "pyobj \<Rightarrow> pyobj \<Rightarrow> error + vector" where
  "py_cross a b =
     (case a of
        PyVec v \<Rightarrow> (case b of PyVec w \<Rightarrow> Vector_cross v w | _ \<Rightarrow> Inl AttributeError)
      | _ \<Rightarrow> Inl AttributeError)"

subsection \<open>Nearest points\<close>

text \<open>
  The expression \<open>pa + ((pb - pa) * n / (da * n)) * da\<close>, which both methods use:
  \<open>pa\<close>, \<open>pb\<close> and \<open>n\<close> are Vectors, \<open>da\<close> is a \<open>_ud\<close>.
\<close>

definition point_along :: "vector \<Rightarrow> vector \<Rightarrow> vector \<Rightarrow> pyobj \<Rightarrow> error + vector" where
  "point_along pa pb n da =
     bind_err (Vector_sub_vec pb pa) (\<lambda>diff.
     bind_err (py_mul da (PyVec n)) (\<lambda>den.
     bind_err (num_truediv (np_dot (data diff) (data n)) den) (\<lambda>q.
     bind_err (num_mul q da) (\<lambda>step.
     Vector_add pa (Obj step)))))"

text \<open>The test \<open>(1 - self._ud * line._ud) < 10 * m3d.utils.eps\<close>.\<close>

definition parallel_test :: "float64 \<Rightarrow> line \<Rightarrow> line \<Rightarrow> error + bool" where
  "parallel_test eps self other =
     bind_err (py_mul (line_ud self) (line_ud other)) (\<lambda>t.
     bind_err (num_sub (Fin 1) t) (\<lambda>lhs.
     Inr (f64_lt lhs (f64_mul (Fin 10) eps))))"

definition Line_projected_line :: "float64 \<Rightarrow> line \<Rightarrow> line \<Rightarrow> error + vector" where
  "Line_projected_line eps self other =
     bind_err (parallel_test eps self other) (\<lambda>parallel.
     if parallel then Line_point self
     else
       (let p1 = line_p self; p2 = line_p other;
            d1 = line_ud self; d2 = line_ud other
        in bind_err (py_cross d1 d2) (\<lambda>c.
           bind_err (py_cross d2 (PyVec c)) (\<lambda>n2.
           point_along p1 p2 n2 d1))))"

text \<open>\<open>nearest_points\<close> returns one Vector from its first branch and a pair otherwise.\<close>

datatype points = OnePoint vector | PointPair vector vector

definition Line_nearest_points :: "float64 \<Rightarrow> line \<Rightarrow> line \<Rightarrow> error + points" where
  "Line_nearest_points eps self other =
     bind_err (parallel_test eps self other) (\<lambda>parallel.
     if parallel then bind_err (Line_point self) (\<lambda>v. Inr (OnePoint v))
     else
       (let p1 = line_p self; p2 = line_p other;
            d1 = line_ud self; d2 = line_ud other
        in bind_err (py_cross d2 d1) (\<lambda>c1.
           bind_err (py_cross d1 (PyVec c1)) (\<lambda>n1.
           bind_err (py_cross d1 d2) (\<lambda>c2.
           bind_err (py_cross d2 (PyVec c2)) (\<lambda>n2.
           bind_err (point_along p1 p2 n2 d1) (\<lambda>q1.
           bind_err (point_along p2 p1 n1 d2) (\<lambda>q2.
           Inr (PointPair q1 q2)))))))))"

subsection \<open>Keyword arguments used below\<close>

text \<open>No keyword given: \<open>Line()\<close>.\<close>

definition no_kwargs :: line_kwargs where
  "no_kwargs =
     \<lparr>kw_point_direction = None, kw_pd_pair = None, kw_point = None,
      kw_direction = None, kw_point0 = None, kw_point1 = None\<rparr>"

text \<open>
  The two lines of the module's own \<open>_test\<close>:
  \<open>Line(point=(0, 1, 1), direction=(0, 0.1, 1))\<close> and
  \<open>Line(point=(1, 1, 0.1), direction=(0, 1, 0))\<close>.
\<close>

definition test_l1_kwargs :: line_kwargs where
  "test_l1_kwargs =
     no_kwargs\<lparr>kw_point := Some (nums [Fin 0, Fin 1, Fin 1]),
               kw_direction := Some (nums [Fin 0, Fin (1 / 10), Fin 1])\<rparr>"

definition test_l2_kwargs :: line_kwargs where
  "test_l2_kwargs =
     no_kwargs\<lparr>kw_point := Some (nums [Fin 1, Fin 1, Fin (1 / 10)]),
               kw_direction := Some (nums [Fin 0, Fin 1, Fin 0])\<rparr>"

text \<open>The Line objects these two calls construct.\<close>

definition test_l1 :: line where
  "test_l1 =
     \<lparr>line_p = \<lparr>data = (Fin 0, Fin 1, Fin 1), isPosition = 1\<rparr>,
      line_d = \<lparr>data = (Fin 0, Fin (1 / 10), Fin 1), isPosition = 1\<rparr>,
      line_ud = PyMethod \<lparr>data = (Fin 0, Fin (1 / 10), Fin 1), isPosition = 1\<rparr>\<rparr>"

definition test_l2 :: line where
  "test_l2 =
     \<lparr>line_p = \<lparr>data = (Fin 1, Fin 1, Fin (1 / 10)), isPosition = 1\<rparr>,
      line_d = \<lparr>data = (Fin 0, Fin 1, Fin 0), isPosition = 1\<rparr>,
      line_ud = PyMethod \<lparr>data = (Fin 0, Fin 1, Fin 0), isPosition = 1\<rparr>\<rparr>"

definition zero_vector :: vector where
  "zero_vector = \<lparr>data = (Fin 0, Fin 0, Fin 0), isPosition = 1\<rparr>"

definition nan_vector :: vector where
  "nan_vector = \<lparr>data = (NaN, NaN, NaN), isPosition = 1\<rparr>"

definition e0 :: vector where
  "e0 = \<lparr>data = (Fin 1, Fin 0, Fin 0), isPosition = 1\<rparr>"

section \<open>Properties\<close>

subsection \<open>Small numbers stay as they are\<close>

lemma rnd_0: "rnd 0 = Fin 0"
  by (simp add: rnd_def overflow_bound_def underflow_bound_def)

lemma rnd_1: "rnd 1 = Fin 1"
  by (simp add: rnd_def overflow_bound_def underflow_bound_def)

subsection \<open>The constructor of Vector\<close>

lemma Vector_init_numbers3:
  "Vector_init [Obj (PyNum x), Obj (PyNum y), Obj (PyNum z)] kwargs =
     Inr \<lparr>data = (x, y, z), isPosition = Vector_init_isPosition kwargs\<rparr>"
  by (simp add: Vector_init_def Vector_init_data_def isNumTypes_def bind_err_def)


lemma np_array_nums: "np_array (map Elem xs) = Inr xs"
  by (induction xs) (simp_all add: bind_err_def)


lemma Vector_init_seq3:
  "Vector_init [nums [x, y, z]] kwargs =
     Inr \<lparr>data = (x, y, z), isPosition = Vector_init_isPosition kwargs\<rparr>"
  by (simp add: Vector_init_def Vector_init_data_def isThreeSequence_def bind_err_def nums_def)


lemma Vector_init_vector:
  "Vector_init [Obj (PyVec v)] kwargs =
     Inr \<lparr>data = data v, isPosition = Vector_init_isPosition kwargs\<rparr>"
  by (simp add: Vector_init_def Vector_init_data_def isThreeSequence_def bind_err_def)

lemma Vector_init_array:
  "Vector_init [array a] kwargs =
     Inr \<lparr>data = a, isPosition = Vector_init_isPosition kwargs\<rparr>"
  by (cases a)
     (simp add: array_def Vector_init_def Vector_init_data_def isThreeSequence_def bind_err_def)

lemma isPosition_default: "Vector_init_isPosition Map.empty = 1"
  by (simp add: Vector_init_isPosition_def)







lemma Vector_init_tag:
  "Vector_init args kwargs = Inr v \<Longrightarrow> isPosition v = Vector_init_isPosition kwargs"
  by (auto simp: Vector_init_def bind_err_def split: sum.splits)




subsection \<open>The position tag\<close>

lemma Vector_dunder_copy_eq:
  "Vector_dunder_copy v = Inr \<lparr>data = data v, isPosition = 1\<rparr>"
  by (simp add: Vector_dunder_copy_def Vector_init_vector isPosition_default)

text \<open>
  C10. Every Vector carries the tag, position (1) unless the keyword 'position' is
  given and false, and no arithmetic reads it. As the claim states it, a copy keeps the
  tag of its source. The code sets the tag from the keyword alone in every
  construction, and \<open>Vector(other)\<close>, \<open>__copy__\<close> and \<open>copy()\<close> pass no
  keyword: a copy has the source's components and is always tagged position.
\<close>

theorem tag_from_keyword_only:
  "(Vector_init args kwargs = Inr v \<longrightarrow>
      isPosition v =
        (case kwargs ''position'' of None \<Rightarrow> 1 | Some flag \<Rightarrow> if truthy flag then 1 else 0))
   \<and> Vector_dunder_copy u = Inr \<lparr>data = data u, isPosition = 1\<rparr>
   \<and> Vector_copy u None = (u, Inr (PyVec \<lparr>data = data u, isPosition = 1\<rparr>))
   \<and> Vector_add (u\<lparr>isPosition := s\<rparr>) (Obj (PyVec (w\<lparr>isPosition := t\<rparr>)))
        = Vector_add u (Obj (PyVec w))
   \<and> Vector_sub (u\<lparr>isPosition := s\<rparr>) (Obj (PyVec (w\<lparr>isPosition := t\<rparr>)))
        = Vector_sub u (Obj (PyVec w))
   \<and> Vector_mul (u\<lparr>isPosition := s\<rparr>) (Obj (PyVec (w\<lparr>isPosition := t\<rparr>)))
        = Vector_mul u (Obj (PyVec w))
   \<and> Vector_cross (u\<lparr>isPosition := s\<rparr>) (w\<lparr>isPosition := t\<rparr>) = Vector_cross u w
   \<and> Vector_length2 (u\<lparr>isPosition := s\<rparr>) = Vector_length2 u
   \<and> Vector_angle (u\<lparr>isPosition := s\<rparr>) (w\<lparr>isPosition := t\<rparr>) = Vector_angle u w"
proof -
  have "Vector_init args kwargs = Inr v \<longrightarrow>
      isPosition v =
        (case kwargs ''position'' of None \<Rightarrow> 1 | Some flag \<Rightarrow> if truthy flag then 1 else 0)"
    using Vector_init_tag [of args kwargs v] by (simp add: Vector_init_isPosition_def)
  moreover have "Vector_copy u None = (u, Inr (PyVec \<lparr>data = data u, isPosition = 1\<rparr>))"
    by (simp add: Vector_copy_def Vector_init_vector isPosition_default bind_err_def)
  moreover have "Vector_angle (u\<lparr>isPosition := s\<rparr>) (w\<lparr>isPosition := t\<rparr>) = Vector_angle u w"
    by (simp add: Vector_angle_def Vector_length_def Vector_length2_def)
  ultimately show ?thesis
    by (simp add: Vector_dunder_copy_eq Vector_add_def Vector_sub_def Vector_sub_vec_def
        Vector_mul_def Vector_cross_def Vector_length2_def)
qed

text \<open>
  C10, at a concrete input: \<open>Vector(1, 2, 3, position=0)\<close> is constructed, and is
  tagged 0 as the keyword says.
\<close>

theorem tag_from_keyword_only_witness:
  "Vector_init [Obj (PyNum (Fin 1)), Obj (PyNum (Fin 2)), Obj (PyNum (Fin 3))]
      [''position'' \<mapsto> PyNum (Fin 0)]
     = Inr \<lparr>data = (Fin 1, Fin 2, Fin 3), isPosition = 0\<rparr>
   \<and> isPosition \<lparr>data = (Fin 1, Fin 2, Fin 3), isPosition = 0\<rparr> = 0"
  using tag_from_keyword_only
    [of "[Obj (PyNum (Fin 1)), Obj (PyNum (Fin 2)), Obj (PyNum (Fin 3))]"
        "[''position'' \<mapsto> PyNum (Fin 0)]"
        "\<lparr>data = (Fin 1, Fin 2, Fin 3), isPosition = 0\<rparr>"]
  by (simp add: Vector_init_numbers3 Vector_init_isPosition_def f64_ne_def)

text \<open>
  C10 as stated fails: the free vector \<open>Vector(1, 2, 3, position=0)\<close> is copied to a
  position vector.
\<close>

theorem copy_drops_tag_counterexample:
  "Vector_init [Obj (PyNum (Fin 1)), Obj (PyNum (Fin 2)), Obj (PyNum (Fin 3))]
      [''position'' \<mapsto> PyNum (Fin 0)]
     = Inr \<lparr>data = (Fin 1, Fin 2, Fin 3), isPosition = 0\<rparr>
   \<and> Vector_dunder_copy \<lparr>data = (Fin 1, Fin 2, Fin 3), isPosition = 0\<rparr>
     = Inr \<lparr>data = (Fin 1, Fin 2, Fin 3), isPosition = 1\<rparr>
   \<and> Vector_init [Obj (PyVec \<lparr>data = (Fin 1, Fin 2, Fin 3), isPosition = 0\<rparr>)] Map.empty
     = Inr \<lparr>data = (Fin 1, Fin 2, Fin 3), isPosition = 1\<rparr>"
  by (simp add: Vector_init_numbers3 Vector_dunder_copy_def Vector_init_vector
      Vector_init_isPosition_def f64_ne_def)

subsection \<open>Comparison\<close>

text \<open>
  C6. As the claim states it, \<open>a == b\<close> returns a boolean for any two Vectors. The
  code computes the sum of squared differences and then reads \<open>utils._eps\<close>, but the
  module imports the names \<open>_eps\<close>, \<open>isNumType\<close>, ... from math3d.utils and never
  binds \<open>utils\<close>: the comparison of any two Vectors raises NameError.
\<close>

theorem eq_raises_NameError:
  "Vector_eq tol a (Obj (PyVec b)) = Inl (NameError ''utils'')"
  by (simp add: Vector_eq_def read_global_def vector_module_names_def bind_err_def)

subsection \<open>Operands that are not Vectors\<close>

text \<open>
  C7. As the claim states it, \<open>+\<close>, \<open>-\<close>, \<open>+=\<close> and \<open>-=\<close> with an operand that
  is not a Vector all fail. \<open>__add__\<close> and \<open>__iadd__\<close> do, with \<open>Vector.Error\<close>
  and the receiver unchanged. \<open>__sub__\<close> has no \<open>else\<close> and returns None;
  \<open>__isub__\<close> returns the receiver unchanged; neither raises.
\<close>

theorem sub_non_vector_silent:
  "\<not> isVectorType other \<Longrightarrow>
     Vector_sub v other = Inr PyNone
     \<and> Vector_isub v other = (v, None)
     \<and> Vector_add v other = Inl VectorError
     \<and> Vector_iadd v other = (v, Some VectorError)"
  by (simp add: Vector_sub_def Vector_isub_def Vector_add_def Vector_iadd_def)

text \<open>C7, at \<open>Vector(1, 0, 0) - 5\<close> and \<open>Vector(1, 0, 0) -= 5\<close>.\<close>

theorem sub_non_vector_silent_witness:
  "\<not> isVectorType (Obj (PyNum (Fin 5)))
   \<and> Vector_sub e0 (Obj (PyNum (Fin 5))) = Inr PyNone
   \<and> Vector_isub e0 (Obj (PyNum (Fin 5))) = (e0, None)"
  using sub_non_vector_silent [of "Obj (PyNum (Fin 5))" e0]
  by simp

subsection \<open>The cached unit direction of a Line\<close>

lemma Line_init_ud: "Line_init kwargs = Inr L \<Longrightarrow> line_ud L = PyMethod (line_d L)"
  by (auto simp: Line_init_def Line_init_pair_def Line_init_finish_def getattr_normalized_def
      bind_err_def split: option.splits sum.splits prod.splits)

lemma Line_unit_direction_method:
  "line_ud L = PyMethod m \<Longrightarrow> Line_unit_direction L = Inl VectorError"
  by (simp add: Line_unit_direction_def Vector_init_def Vector_init_data_def bind_err_def
      isThreeSequence_def)

lemma parallel_test_method:
  "line_ud L1 = PyMethod m1 \<Longrightarrow> line_ud L2 = PyMethod m2 \<Longrightarrow>
     parallel_test eps L1 L2 = Inl TypeError"
  by (simp add: parallel_test_def py_mul_def bind_err_def)

lemma Line_init_point_direction:
  assumes "Vector_init [a] Map.empty = Inr p" "Vector_init [b] Map.empty = Inr d"
  shows "Line_init (no_kwargs\<lparr>kw_point := Some a, kw_direction := Some b\<rparr>)
           = Inr \<lparr>line_p = p, line_d = d, line_ud = PyMethod d\<rparr>"
  using assms
  by (simp add: Line_init_def no_kwargs_def bind_err_def Line_init_finish_def
      getattr_normalized_def)

lemma Line_init_pd_pair:
  assumes "Vector_init [a] Map.empty = Inr p" "Vector_init [b] Map.empty = Inr d"
  shows "Line_init (no_kwargs\<lparr>kw_pd_pair := Some (a, b)\<rparr>)
           = Inr \<lparr>line_p = p, line_d = d, line_ud = PyMethod d\<rparr>"
    and "Line_init (no_kwargs\<lparr>kw_point_direction := Some (a, b)\<rparr>)
           = Inr \<lparr>line_p = p, line_d = d, line_ud = PyMethod d\<rparr>"
  using assms
  by (simp_all add: Line_init_def Line_init_pair_def no_kwargs_def bind_err_def
      Line_init_finish_def getattr_normalized_def)

lemma Line_init_two_points:
  assumes "Vector_init [a] Map.empty = Inr p" "Vector_init [b] Map.empty = Inr q"
  shows "Line_init (no_kwargs\<lparr>kw_point0 := Some a, kw_point1 := Some b\<rparr>)
           = Inr \<lparr>line_p = p,
                  line_d = \<lparr>data = np_subtract (data q) (data p), isPosition = 1\<rparr>,
                  line_ud = PyMethod \<lparr>data = np_subtract (data q) (data p), isPosition = 1\<rparr>\<rparr>"
  using assms
  by (simp add: Line_init_def no_kwargs_def bind_err_def Line_init_finish_def
      getattr_normalized_def Vector_sub_vec_def Vector_init_array isPosition_default)

lemma Line_init_test_l1: "Line_init test_l1_kwargs = Inr test_l1"
  unfolding test_l1_kwargs_def test_l1_def
  by (rule Line_init_point_direction) (simp_all add: Vector_init_seq3 isPosition_default)

lemma Line_init_test_l2: "Line_init test_l2_kwargs = Inr test_l2"
  unfolding test_l2_kwargs_def test_l2_def
  by (rule Line_init_point_direction) (simp_all add: Vector_init_seq3 isPosition_default)

text \<open>
  C1. As the claim states it, the constructor caches \<open>normalize(d)\<close>, a Vector of unit
  length, and \<open>unit_direction\<close> returns a copy of it. The constructor's last statement
  is \<open>self._ud = self._d.normalized\<close>, without the call: what every constructed Line
  caches is the bound method, not a Vector, and \<open>unit_direction\<close>, which passes it to
  the constructor of Vector, raises \<open>Vector.Error\<close>.
\<close>

theorem Line_ud_is_bound_method:
  "Line_init kwargs = Inr L \<Longrightarrow>
     line_ud L = PyMethod (line_d L) \<and> Line_unit_direction L = Inl VectorError"
  using Line_init_ud [of kwargs L] Line_unit_direction_method [of L "line_d L"]
  by simp

text \<open>
  C1, at the three forms of \<open>Line(point=(0, 0, 0), direction=(1, 0, 0))\<close>: with
  'point' and 'direction', with 'pd_pair', and with 'point0' and 'point1'.
\<close>

theorem Line_ud_is_bound_method_witness:
  "(\<exists>L. Line_init (no_kwargs\<lparr>kw_point := Some (nums [Fin 0, Fin 0, Fin 0]),
                             kw_direction := Some (nums [Fin 1, Fin 0, Fin 0])\<rparr>) = Inr L
        \<and> line_ud L = PyMethod e0 \<and> Line_unit_direction L = Inl VectorError)
   \<and> (\<exists>L. Line_init (no_kwargs\<lparr>kw_pd_pair :=
                Some (nums [Fin 0, Fin 0, Fin 0], nums [Fin 1, Fin 0, Fin 0])\<rparr>) = Inr L
        \<and> line_ud L = PyMethod e0 \<and> Line_unit_direction L = Inl VectorError)
   \<and> (\<exists>L. Line_init (no_kwargs\<lparr>kw_point0 := Some (nums [Fin 0, Fin 0, Fin 0]),
                             kw_point1 := Some (nums [Fin 1, Fin 0, Fin 0])\<rparr>) = Inr L
        \<and> line_ud L = PyMethod e0 \<and> Line_unit_direction L = Inl VectorError)"
proof -
  have p: "Vector_init [nums [Fin 0, Fin 0, Fin 0]] Map.empty = Inr zero_vector"
    and d: "Vector_init [nums [Fin 1, Fin 0, Fin 0]] Map.empty = Inr e0"
    by (simp_all add: Vector_init_seq3 isPosition_default zero_vector_def e0_def)
  have s: "\<lparr>data = np_subtract (data e0) (data zero_vector), isPosition = 1\<rparr> = e0"
    by (simp add: e0_def zero_vector_def np_subtract_def f64_sub_def rnd_0 rnd_1)
  show ?thesis
    using Line_ud_is_bound_method [OF Line_init_point_direction [OF p d]]
      Line_ud_is_bound_method [OF Line_init_pd_pair(1) [OF p d]]
      Line_ud_is_bound_method [OF Line_init_two_points [OF p d]]
    by (simp add: Line_init_point_direction [OF p d] Line_init_pd_pair(1) [OF p d]
        Line_init_two_points [OF p d] s)
qed

subsection \<open>Nearest points and projection between two Lines\<close>

text \<open>
  C2. As the claim states it, \<open>nearest_points\<close> returns a pair of points, one on each
  line, joined by a segment perpendicular to both. The first thing the method
  evaluates is \<open>self._ud * line._ud\<close>, and both are the bound methods the constructor
  cached (see C1): for any two constructed Lines the method raises TypeError before it
  computes anything.
\<close>

theorem nearest_points_raises:
  "Line_init kwargs1 = Inr L1 \<Longrightarrow> Line_init kwargs2 = Inr L2 \<Longrightarrow>
     Line_nearest_points eps L1 L2 = Inl TypeError"
  by (simp add: Line_nearest_points_def parallel_test_method [OF Line_init_ud Line_init_ud]
      bind_err_def)

text \<open>C2, at the two skew lines of the module's \<open>_test\<close>.\<close>

theorem nearest_points_raises_witness:
  "Line_init test_l1_kwargs = Inr test_l1
   \<and> Line_init test_l2_kwargs = Inr test_l2
   \<and> (\<forall>eps. Line_nearest_points eps test_l1 test_l2 = Inl TypeError)"
  using nearest_points_raises [OF Line_init_test_l1 Line_init_test_l2]
  by (simp add: Line_init_test_l1 Line_init_test_l2)

text \<open>
  C3. As the claim states it, \<open>projected_line\<close> of two parallel lines takes the
  degenerate branch and returns \<open>self.point\<close>. The test that guards the branch
  multiplies the two cached bound methods (see C1): for any two constructed Lines,
  parallel or not, the method raises TypeError and returns nothing.
\<close>

theorem projected_line_raises:
  "Line_init kwargs1 = Inr L1 \<Longrightarrow> Line_init kwargs2 = Inr L2 \<Longrightarrow>
     Line_projected_line eps L1 L2 = Inl TypeError"
  by (simp add: Line_projected_line_def parallel_test_method [OF Line_init_ud Line_init_ud]
      bind_err_def)

text \<open>C3, at a line and itself: \<open>l = Line(point=(0, 1, 1), direction=(0, 0.1, 1))\<close>.\<close>

theorem projected_line_raises_witness:
  "Line_init test_l1_kwargs = Inr test_l1
   \<and> (\<forall>eps. Line_projected_line eps test_l1 test_l1 = Inl TypeError)"
  using projected_line_raises [OF Line_init_test_l1 Line_init_test_l1]
  by (simp add: Line_init_test_l1)

subsection \<open>The two-point form of the constructor\<close>





subsection \<open>Normalising the zero vector\<close>

lemma Vector_normalize_zero:
  "data v = (Fin 0, Fin 0, Fin 0) \<Longrightarrow> Vector_normalize v = v\<lparr>data := (NaN, NaN, NaN)\<rparr>"
  by (simp add: Vector_normalize_def Vector_length_def Vector_length2_def np_dot_def rnd_0
      f64_ne_def np_divide_def)

text \<open>
  C4. As the claim states it, normalising a zero vector and constructing a Line with a
  zero direction raise DegenerateVectorError. The code has no such error and no test of
  the length: \<open>normalize\<close> divides the components by the length 0, which numpy
  computes as NaN without raising, so \<open>normalize\<close> and \<open>normalized\<close> give the
  vector (NaN, NaN, NaN); and the constructor of Line never looks at the length of the
  direction: in each of its forms it returns a Line whenever the constructor of Vector
  accepts the arguments, with the direction given, or \<open>point1 - point0\<close>, which is
  zero for two equal finite points.
\<close>

theorem normalize_zero_gives_nan:
  assumes "data v = (Fin 0, Fin 0, Fin 0)"
  shows "Vector_normalize v = v\<lparr>data := (NaN, NaN, NaN)\<rparr>
         \<and> Vector_normalized v = Inr nan_vector
         \<and> (Vector_init [p] Map.empty = Inr vp \<longrightarrow>
              (\<exists>L. Line_init (no_kwargs\<lparr>kw_point := Some p,
                                        kw_direction := Some (Obj (PyVec v))\<rparr>) = Inr L
                   \<and> line_p L = vp \<and> data (line_d L) = (Fin 0, Fin 0, Fin 0)))
         \<and> (Vector_init [p] Map.empty = Inr vp \<and> Vector_init [d] Map.empty = Inr vd \<longrightarrow>
              (\<exists>L. Line_init (no_kwargs\<lparr>kw_point := Some p, kw_direction := Some d\<rparr>) = Inr L
                   \<and> line_p L = vp \<and> line_d L = vd)
              \<and> (\<exists>L. Line_init (no_kwargs\<lparr>kw_pd_pair := Some (p, d)\<rparr>) = Inr L
                   \<and> line_p L = vp \<and> line_d L = vd)
              \<and> (\<exists>L. Line_init (no_kwargs\<lparr>kw_point_direction := Some (p, d)\<rparr>) = Inr L
                   \<and> line_p L = vp \<and> line_d L = vd))
         \<and> (Vector_init [p] Map.empty = Inr vp \<and> Vector_init [q] Map.empty = Inr vq \<longrightarrow>
              (\<exists>L. Line_init (no_kwargs\<lparr>kw_point0 := Some p, kw_point1 := Some q\<rparr>) = Inr L
                   \<and> line_p L = vp
                   \<and> data (line_d L) = np_subtract (data vq) (data vp)))
         \<and> np_subtract (Fin x, Fin y, Fin z) (Fin x, Fin y, Fin z) = (Fin 0, Fin 0, Fin 0)"
proof -
  have n: "Vector_normalized v = Inr nan_vector"
    using assms
    by (simp add: Vector_normalized_def Vector_init_vector isPosition_default bind_err_def
        Vector_normalize_zero nan_vector_def)
  have c: "Vector_init [Obj (PyVec v)] Map.empty = Inr zero_vector"
    using assms by (simp add: Vector_init_vector isPosition_default zero_vector_def)
  have old: "Vector_init [p] Map.empty = Inr vp \<longrightarrow>
              (\<exists>L. Line_init (no_kwargs\<lparr>kw_point := Some p,
                                        kw_direction := Some (Obj (PyVec v))\<rparr>) = Inr L
                   \<and> line_p L = vp \<and> data (line_d L) = (Fin 0, Fin 0, Fin 0))"
    using c by (auto simp: Line_init_point_direction zero_vector_def)
  have forms: "Vector_init [p] Map.empty = Inr vp \<and> Vector_init [d] Map.empty = Inr vd \<longrightarrow>
              (\<exists>L. Line_init (no_kwargs\<lparr>kw_point := Some p, kw_direction := Some d\<rparr>) = Inr L
                   \<and> line_p L = vp \<and> line_d L = vd)
              \<and> (\<exists>L. Line_init (no_kwargs\<lparr>kw_pd_pair := Some (p, d)\<rparr>) = Inr L
                   \<and> line_p L = vp \<and> line_d L = vd)
              \<and> (\<exists>L. Line_init (no_kwargs\<lparr>kw_point_direction := Some (p, d)\<rparr>) = Inr L
                   \<and> line_p L = vp \<and> line_d L = vd)"
    by (auto simp: Line_init_point_direction Line_init_pd_pair)
  have two: "Vector_init [p] Map.empty = Inr vp \<and> Vector_init [q] Map.empty = Inr vq \<longrightarrow>
              (\<exists>L. Line_init (no_kwargs\<lparr>kw_point0 := Some p, kw_point1 := Some q\<rparr>) = Inr L
                   \<and> line_p L = vp
                   \<and> data (line_d L) = np_subtract (data vq) (data vp))"
    by (auto simp: Line_init_two_points)
  have zero: "np_subtract (Fin x, Fin y, Fin z) (Fin x, Fin y, Fin z) = (Fin 0, Fin 0, Fin 0)"
    by (simp add: np_subtract_def f64_sub_def rnd_0)
  from n old forms two zero show ?thesis
    using assms by (simp only: Vector_normalize_zero simp_thms)
qed

text \<open>
  C4, at \<open>Vector(0, 0, 0)\<close> and at the Lines through (1, 0, 0) with the direction
  (0, 0, 0), given as a tuple in the three point-and-direction forms, as a Vector, and
  as the difference of the point and itself.
\<close>

theorem normalize_zero_gives_nan_witness:
  "data zero_vector = (Fin 0, Fin 0, Fin 0)
   \<and> Vector_init [nums [Fin 1, Fin 0, Fin 0]] Map.empty = Inr e0
   \<and> Vector_init [nums [Fin 0, Fin 0, Fin 0]] Map.empty = Inr zero_vector
   \<and> Vector_normalize zero_vector = nan_vector
   \<and> Vector_normalized zero_vector = Inr nan_vector
   \<and> (\<exists>L. Line_init (no_kwargs\<lparr>kw_point := Some (nums [Fin 1, Fin 0, Fin 0]),
                             kw_direction := Some (Obj (PyVec zero_vector))\<rparr>) = Inr L
          \<and> line_p L = e0 \<and> data (line_d L) = (Fin 0, Fin 0, Fin 0))
   \<and> (\<exists>L. Line_init (no_kwargs\<lparr>kw_point := Some (nums [Fin 1, Fin 0, Fin 0]),
                             kw_direction := Some (nums [Fin 0, Fin 0, Fin 0])\<rparr>) = Inr L
          \<and> line_p L = e0 \<and> line_d L = zero_vector)
   \<and> (\<exists>L. Line_init (no_kwargs\<lparr>kw_pd_pair :=
                Some (nums [Fin 1, Fin 0, Fin 0], nums [Fin 0, Fin 0, Fin 0])\<rparr>) = Inr L
          \<and> line_p L = e0 \<and> line_d L = zero_vector)
   \<and> (\<exists>L. Line_init (no_kwargs\<lparr>kw_point_direction :=
                Some (nums [Fin 1, Fin 0, Fin 0], nums [Fin 0, Fin 0, Fin 0])\<rparr>) = Inr L
          \<and> line_p L = e0 \<and> line_d L = zero_vector)
   \<and> (\<exists>L. Line_init (no_kwargs\<lparr>kw_point0 := Some (nums [Fin 1, Fin 0, Fin 0]),
                             kw_point1 := Some (nums [Fin 1, Fin 0, Fin 0])\<rparr>) = Inr L
          \<and> line_p L = e0 \<and> data (line_d L) = (Fin 0, Fin 0, Fin 0))"
proof -
  have z: "data zero_vector = (Fin 0, Fin 0, Fin 0)"
    by (simp add: zero_vector_def)
  have p: "Vector_init [nums [Fin 1, Fin 0, Fin 0]] Map.empty = Inr e0"
    and d: "Vector_init [nums [Fin 0, Fin 0, Fin 0]] Map.empty = Inr zero_vector"
    by (simp_all add: Vector_init_seq3 isPosition_default e0_def zero_vector_def)
  have e: "data e0 = (Fin 1, Fin 0, Fin 0)"
    by (simp add: e0_def)
  have n: "zero_vector\<lparr>data := (NaN, NaN, NaN)\<rparr> = nan_vector"
    by (simp add: zero_vector_def nan_vector_def)
  show ?thesis
    using normalize_zero_gives_nan
      [OF z, where p = "nums [Fin 1, Fin 0, Fin 0]" and vp = e0
         and d = "nums [Fin 0, Fin 0, Fin 0]" and vd = zero_vector
         and q = "nums [Fin 1, Fin 0, Fin 0]" and vq = e0
         and x = 1 and y = 0 and z = 0]
    by (auto simp: z p d e n)
qed

text \<open>
  C4 as stated fails: \<open>Vector(0, 0, 0).normalized()\<close> returns the vector
  (NaN, NaN, NaN), and \<open>Line(point=(0, 0, 0), direction=(0, 0, 0))\<close> and
  \<open>Line(point0=(1, 0, 0), point1=(1, 0, 0))\<close> return Lines of zero direction; nothing is
  raised.
\<close>

theorem normalize_zero_no_error_counterexample:
  "Vector_normalized zero_vector = Inr nan_vector
   \<and> Line_init (no_kwargs\<lparr>kw_point := Some (nums [Fin 0, Fin 0, Fin 0]),
                          kw_direction := Some (nums [Fin 0, Fin 0, Fin 0])\<rparr>)
       = Inr \<lparr>line_p = zero_vector, line_d = zero_vector, line_ud = PyMethod zero_vector\<rparr>
   \<and> Line_init (no_kwargs\<lparr>kw_point0 := Some (nums [Fin 1, Fin 0, Fin 0]),
                          kw_point1 := Some (nums [Fin 1, Fin 0, Fin 0])\<rparr>)
       = Inr \<lparr>line_p = e0, line_d = zero_vector, line_ud = PyMethod zero_vector\<rparr>"
proof -
  have z: "Vector_init [nums [Fin 0, Fin 0, Fin 0]] Map.empty = Inr zero_vector"
    and p: "Vector_init [nums [Fin 1, Fin 0, Fin 0]] Map.empty = Inr e0"
    by (simp_all add: Vector_init_seq3 isPosition_default zero_vector_def e0_def)
  have "Vector_normalized zero_vector = Inr nan_vector"
    by (simp add: Vector_normalized_def Vector_init_vector isPosition_default bind_err_def
        Vector_normalize_zero nan_vector_def zero_vector_def)
  moreover have "np_subtract (data e0) (data e0) = (Fin 0, Fin 0, Fin 0)"
    by (simp add: e0_def np_subtract_def f64_sub_def rnd_0)
  ultimately show ?thesis
    by (simp add: Line_init_point_direction [OF z z] Line_init_two_points [OF p p]
        zero_vector_def)
qed

subsection \<open>The angle between two Vectors\<close>

lemma rnd_not_NaN: "rnd r \<noteq> NaN"
  by (simp add: rnd_def)

lemma rnd_Fin_bound: "rnd r = Fin s \<Longrightarrow> \<bar>r\<bar> < overflow_bound"
  by (auto simp: rnd_def split: if_splits)

lemma rnd_in_range: "\<bar>r\<bar> < overflow_bound \<Longrightarrow> \<exists>s. rnd r = Fin s"
  by (auto simp: rnd_def)

lemma f64_add_Fin_D: "f64_add u v = Fin s \<Longrightarrow> \<exists>p q. u = Fin p \<and> v = Fin q"
  by (cases u; cases v) simp_all

lemma f64_mul_Fin_D: "f64_mul u v = Fin s \<Longrightarrow> s \<noteq> 0 \<Longrightarrow> \<exists>p q. u = Fin p \<and> v = Fin q"
  by (cases u; cases v) (simp_all add: inf_of_sign_def split: if_splits)

lemma f64_sqrt_Fin_D: "f64_sqrt u = Fin s \<Longrightarrow> \<exists>p. u = Fin p"
  by (cases u) (simp_all split: if_splits)

lemma f64_add_not_NaN: "u \<noteq> NaN \<Longrightarrow> f64_add u (Fin q) \<noteq> NaN"
  by (cases u) (simp_all add: rnd_not_NaN)

lemma f64_div_not_NaN: "u \<noteq> NaN \<Longrightarrow> m \<noteq> 0 \<Longrightarrow> f64_div u (Fin m) \<noteq> NaN"
  by (cases u) (simp_all add: rnd_not_NaN)

lemma square_Fin_D:
  assumes "f64_mul u u = Fin s"
  shows "\<exists>p. u = Fin p \<and> \<bar>p * p\<bar> < overflow_bound"
  using assms by (cases u) (auto dest: rnd_Fin_bound)

lemma overflow_bound_pos: "0 < overflow_bound"
  by (simp add: overflow_bound_def)

lemma product_in_range:
  assumes "\<bar>p * p\<bar> < overflow_bound" "\<bar>q * q\<bar> < overflow_bound"
  shows "\<bar>p * q\<bar> < overflow_bound"
proof -
  have "\<bar>p * q\<bar> * \<bar>p * q\<bar> = \<bar>p * p\<bar> * \<bar>q * q\<bar>"
    by (simp add: abs_mult algebra_simps)
  also have "\<dots> < overflow_bound * overflow_bound"
    using assms overflow_bound_pos by (intro mult_strict_mono) auto
  finally have "\<bar>p * q\<bar> * \<bar>p * q\<bar> < overflow_bound * overflow_bound" .
  then show ?thesis
    using overflow_bound_pos
    by (metis abs_ge_zero less_eq_real_def mult_less_cancel_left_pos mult_mono not_less)
qed

lemma length2_Fin_D:
  assumes "np_dot (x, y, z) (x, y, z) = Fin s"
  shows "\<exists>p q r. x = Fin p \<and> y = Fin q \<and> z = Fin r
           \<and> \<bar>p * p\<bar> < overflow_bound \<and> \<bar>q * q\<bar> < overflow_bound \<and> \<bar>r * r\<bar> < overflow_bound"
proof -
  from assms have s: "f64_add (f64_add (f64_mul x x) (f64_mul y y)) (f64_mul z z) = Fin s"
    by (simp add: np_dot_def)
  from f64_add_Fin_D[OF s] obtain t zz where t: "f64_add (f64_mul x x) (f64_mul y y) = Fin t"
    and zz: "f64_mul z z = Fin zz" by blast
  from f64_add_Fin_D[OF t] obtain xx yy where xx: "f64_mul x x = Fin xx" and yy: "f64_mul y y = Fin yy"
    by blast
  from square_Fin_D[OF xx] square_Fin_D[OF yy] square_Fin_D[OF zz] show ?thesis by blast
qed

lemma dot_not_NaN:
  assumes "\<bar>p * p\<bar> < overflow_bound" "\<bar>q * q\<bar> < overflow_bound" "\<bar>r * r\<bar> < overflow_bound"
    and "\<bar>p' * p'\<bar> < overflow_bound" "\<bar>q' * q'\<bar> < overflow_bound" "\<bar>r' * r'\<bar> < overflow_bound"
  shows "np_dot (Fin p, Fin q, Fin r) (Fin p', Fin q', Fin r') \<noteq> NaN"
proof -
  obtain a where a: "rnd (p * p') = Fin a"
    using rnd_in_range[OF product_in_range[OF assms(1) assms(4)]] by blast
  obtain b where b: "rnd (q * q') = Fin b"
    using rnd_in_range[OF product_in_range[OF assms(2) assms(5)]] by blast
  obtain c where c: "rnd (r * r') = Fin c"
    using rnd_in_range[OF product_in_range[OF assms(3) assms(6)]] by blast
  have "f64_add (Fin a) (Fin b) \<noteq> NaN" by (simp add: rnd_not_NaN)
  then have "f64_add (f64_add (Fin a) (Fin b)) (Fin c) \<noteq> NaN" by (rule f64_add_not_NaN)
  then show ?thesis by (simp add: np_dot_def a b c)
qed

lemma clamp_range:
  assumes "c \<noteq> NaN"
  shows "\<exists>r. clamp_costheta c = Fin r \<and> - 1 \<le> r \<and> r \<le> 1"
  using assms by (cases c) (auto simp: clamp_costheta_def f64_gt_def)

lemma arccos_clamp:
  assumes "c \<noteq> NaN"
  shows "\<exists>\<theta>. f64_arccos (clamp_costheta c) = Fin \<theta> \<and> 0 \<le> \<theta> \<and> \<theta> \<le> pi"
proof -
  from clamp_range[OF assms] obtain r where r: "clamp_costheta c = Fin r" "- 1 \<le> r" "r \<le> 1" by blast
  then show ?thesis by (simp add: arccos_lbound arccos_ubound)
qed

lemma clamp_overshoot: "f64_gt c (Fin 1) \<Longrightarrow> f64_arccos (clamp_costheta c) = Fin 0"
  by (simp add: clamp_costheta_def)

lemma angle_defined_aux:
  assumes m: "f64_mul (Vector_length a) (Vector_length b) = Fin m" and nz: "m \<noteq> 0"
  shows "\<exists>\<theta>. Vector_angle a b = Fin \<theta> \<and> 0 \<le> \<theta> \<and> \<theta> \<le> pi"
proof -
  from f64_mul_Fin_D[OF m nz] obtain la lb where la: "Vector_length a = Fin la" and lb: "Vector_length b = Fin lb"
    by blast
  obtain x y z where a: "data a = (x, y, z)" by (cases "data a") auto
  obtain x' y' z' where b: "data b = (x', y', z')" by (cases "data b") auto
  from la obtain sa where "np_dot (x, y, z) (x, y, z) = Fin sa"
    unfolding Vector_length_def Vector_length2_def a by (blast dest: f64_sqrt_Fin_D)
  from length2_Fin_D[OF this] obtain p q r where pa: "x = Fin p" "y = Fin q" "z = Fin r"
    "\<bar>p * p\<bar> < overflow_bound" "\<bar>q * q\<bar> < overflow_bound" "\<bar>r * r\<bar> < overflow_bound" by blast
  from lb obtain sb where "np_dot (x', y', z') (x', y', z') = Fin sb"
    unfolding Vector_length_def Vector_length2_def b by (blast dest: f64_sqrt_Fin_D)
  from length2_Fin_D[OF this] obtain p' q' r' where pb: "x' = Fin p'" "y' = Fin q'" "z' = Fin r'"
    "\<bar>p' * p'\<bar> < overflow_bound" "\<bar>q' * q'\<bar> < overflow_bound" "\<bar>r' * r'\<bar> < overflow_bound" by blast
  have "np_dot (data a) (data b) \<noteq> NaN"
    unfolding a b pa(1-3) pb(1-3) by (rule dot_not_NaN[OF pa(4-6) pb(4-6)])
  then have "f64_div (np_dot (data a) (data b)) (Fin m) \<noteq> NaN"
    using nz by (rule f64_div_not_NaN)
  from arccos_clamp[OF this] show ?thesis
    by (simp add: Vector_angle_def m)
qed

lemma angle_overflow:
  assumes "overflow_bound \<le> x * x"
  shows "Vector_angle \<lparr>data = (Fin x, Fin 0, Fin 0), isPosition = 1\<rparr>
                  \<lparr>data = (Fin x, Fin 0, Fin 0), isPosition = 1\<rparr> = NaN"
proof -
  have big: "rnd (x * x) = PInf"
    using assms by (simp add: rnd_def)
  show ?thesis
    by (simp add: Vector_angle_def Vector_length_def Vector_length2_def np_dot_def rnd_0 big
        clamp_costheta_def f64_gt_def)
qed

lemma rnd_underflow:
  assumes "\<bar>r\<bar> \<le> underflow_bound"
  shows "rnd r = Fin 0"
proof -
  have "underflow_bound < overflow_bound"
    by (simp add: overflow_bound_def underflow_bound_def)
  with assms have "\<not> overflow_bound \<le> r" "\<not> r \<le> - overflow_bound"
    by linarith+
  with assms show ?thesis
    by (simp add: rnd_def)
qed

lemma angle_underflow:
  assumes "\<bar>x * x\<bar> \<le> underflow_bound"
  shows "Vector_angle \<lparr>data = (Fin x, Fin 0, Fin 0), isPosition = 1\<rparr>
                  \<lparr>data = (Fin x, Fin 0, Fin 0), isPosition = 1\<rparr> = NaN"
  by (simp add: Vector_angle_def Vector_length_def Vector_length2_def np_dot_def rnd_0
        rnd_underflow[OF assms] clamp_costheta_def f64_gt_def)


text \<open>
  C5. As the claim states it, \<open>angle\<close> never returns NaN for two non-zero vectors.
  The cosine is clamped as the claim says: a cosine that is not NaN gives an angle
  between 0 and pi, and a cosine above 1 gives the angle 0. What the clamp cannot
  repair is a cosine that is NaN already, and NaN passes both comparisons. The angle
  is a number whenever the product of the two lengths was computed as a finite,
  non-zero number.
\<close>

theorem angle_well_defined:
  "(f64_mul (Vector_length a) (Vector_length b) = Fin m \<and> m \<noteq> 0 \<longrightarrow>
      (\<exists>\<theta>. Vector_angle a b = Fin \<theta> \<and> 0 \<le> \<theta> \<and> \<theta> \<le> pi))
   \<and> (f64_gt c (Fin 1) \<longrightarrow> f64_arccos (clamp_costheta c) = Fin 0)
   \<and> (c \<noteq> NaN \<longrightarrow> (\<exists>\<theta>. f64_arccos (clamp_costheta c) = Fin \<theta> \<and> 0 \<le> \<theta> \<and> \<theta> \<le> pi))"
  using angle_defined_aux [of a b m] clamp_overshoot [of c] arccos_clamp [of c]
  by blast

text \<open>
  C5, at \<open>Vector(1, 0, 0).angle(Vector(1, 0, 0))\<close> and at the spec's overshooting
  cosine 1.0000000002.
\<close>

theorem angle_well_defined_witness:
  "f64_mul (Vector_length e0) (Vector_length e0) = Fin 1
   \<and> (\<exists>\<theta>. Vector_angle e0 e0 = Fin \<theta> \<and> 0 \<le> \<theta> \<and> \<theta> \<le> pi)
   \<and> f64_gt (Fin (10000000002 / 10000000000)) (Fin 1)
   \<and> f64_arccos (clamp_costheta (Fin (10000000002 / 10000000000))) = Fin 0"
proof -
  have l: "f64_mul (Vector_length e0) (Vector_length e0) = Fin 1"
    by (simp add: e0_def Vector_length_def Vector_length2_def np_dot_def rnd_0 rnd_1)
  have g: "f64_gt (Fin (10000000002 / 10000000000)) (Fin 1)"
    by (simp add: f64_gt_def)
  show ?thesis
    using angle_well_defined [of e0 e0 1 "Fin (10000000002 / 10000000000)"] l g
    by simp
qed

text \<open>
  C5 as stated fails, at non-zero vectors: for (2^600, 0, 0) the squared length
  overflows to inf and the cosine is inf / inf; for (2^-600, 0, 0) it underflows to 0
  and the cosine is 0 / 0; for (inf, 0, 0) against (1, 0, 0) the cosine is inf / inf.
  Each angle is NaN.
\<close>

theorem angle_nan_counterexample:
  "Vector_angle \<lparr>data = (Fin (2 ^ 600), Fin 0, Fin 0), isPosition = 1\<rparr>
                \<lparr>data = (Fin (2 ^ 600), Fin 0, Fin 0), isPosition = 1\<rparr> = NaN
   \<and> Vector_angle \<lparr>data = (Fin (1 / 2 ^ 600), Fin 0, Fin 0), isPosition = 1\<rparr>
                  \<lparr>data = (Fin (1 / 2 ^ 600), Fin 0, Fin 0), isPosition = 1\<rparr> = NaN
   \<and> Vector_angle \<lparr>data = (PInf, Fin 0, Fin 0), isPosition = 1\<rparr> e0 = NaN"
proof -
  have big: "overflow_bound \<le> 2 ^ 600 * 2 ^ 600"
    by (simp add: overflow_bound_def)
  have small: "\<bar>(1 / 2 ^ 600) * (1 / 2 ^ 600) :: real\<bar> \<le> underflow_bound"
    by (simp add: underflow_bound_def)
  have "Vector_angle \<lparr>data = (PInf, Fin 0, Fin 0), isPosition = 1\<rparr> e0 = NaN"
    by (simp add: Vector_angle_def Vector_length_def Vector_length2_def np_dot_def rnd_0 rnd_1
        inf_of_sign_def clamp_costheta_def f64_gt_def e0_def)
  with angle_overflow [OF big] angle_underflow [OF small] show ?thesis
    by blast
qed

subsection \<open>Further properties: the cross product and the accessors\<close>

lemma rnd_minus: "rnd (- r) = f64_neg (rnd r)"
proof -
  have "0 < overflow_bound" by (simp add: overflow_bound_def)
  then show ?thesis by (auto simp: rnd_def)
qed

lemma f64_add_commute: "f64_add a b = f64_add b a"
  by (cases a; cases b) (simp_all add: add.commute)

lemma f64_mul_commute: "f64_mul a b = f64_mul b a"
  by (cases a; cases b) (simp_all add: mult.commute)

lemma f64_neg_add: "f64_neg (f64_add a b) = f64_add (f64_neg a) (f64_neg b)"
  by (cases a; cases b) (simp_all add: rnd_minus [symmetric])

lemma f64_neg_neg: "f64_neg (f64_neg a) = a"
  by (cases a) simp_all

lemma f64_neg_sub: "f64_neg (f64_sub a b) = f64_sub b a"
  by (simp add: f64_sub_def f64_neg_add f64_neg_neg f64_add_commute)

lemma np_cross_anticommute: "np_cross a b = np_negative (np_cross b a)"
  by (cases a; cases b) (simp add: np_cross_def np_negative_def f64_neg_sub f64_mul_commute)

text \<open>
  X1. The cross product is anti-commutative, component by component:
  \<open>a.cross(b)\<close> is \<open>-(b.cross(a))\<close>, also where components overflow or are
  infinite or NaN.
\<close>

theorem cross_anticommutative:
  "Vector_cross a b = bind_err (Vector_cross b a) Vector_neg"
  by (simp add: Vector_cross_def Vector_neg_def Vector_init_array bind_err_def
      np_cross_anticommute [of "data a" "data b"])

text \<open>
  X2. The accessors \<open>point\<close> and \<open>direction\<close> of a Line never fail: each returns a
  new Vector with the components of \<open>_p\<close> or \<open>_d\<close>, tagged position.
\<close>

theorem Line_accessors_copy:
  "Line_point L = Inr \<lparr>data = data (line_p L), isPosition = 1\<rparr>
   \<and> Line_direction L = Inr \<lparr>data = data (line_d L), isPosition = 1\<rparr>"
  by (simp add: Line_point_def Line_direction_def Vector_init_vector isPosition_default)

end
